theory Spec2Isabelle
  imports Main
begin

section \<open>Strings\<close>

text \<open>
  A Python \<^verbatim>\<open>str\<close> is modelled as a \<^typ>\<open>string\<close>, one \<^typ>\<open>char\<close> for each character of
  the Python string, so that \<^const>\<open>length\<close> is Python's \<^verbatim>\<open>len\<close> and \<^const>\<open>take\<close> is the slice
  \<^verbatim>\<open>text[:n]\<close>. The type \<^typ>\<open>char\<close> has 256 values: the model covers the strings whose
  characters lie in that range.
\<close>

section \<open>The regular expressions of \<^verbatim>\<open>extract_video_id\<close>\<close>

text \<open>
  The four patterns of \<^verbatim>\<open>extract_video_id\<close> are built from literals, an alternation
  \<^verbatim>\<open>(?:a|b)\<close>, a character class repeated a fixed number of times \<^verbatim>\<open>[...]{n}\<close>, one
  capturing group and a trailing \<^verbatim>\<open>.*\<close>. The type \<open>regex\<close> has these constructs.
\<close>

datatype regex =
    Lit string
  | Chars "char \<Rightarrow> bool" nat
  | AnyStar
  | Alt regex regex
  | Seq regex regex
  | Group regex

text \<open>
  \<open>matches r s\<close> lists, in the order in which Python's backtracking matcher tries them,
  the ways \<open>r\<close> can match at the start of \<open>s\<close>: each is the text captured by group 1 so far
  (if any) and the rest of the input. An alternation tries its left branch first;
  \<^verbatim>\<open>.*\<close> is greedy, stops at a line feed and backs off one character at a time.
\<close>

fun matches :: "regex \<Rightarrow> string \<Rightarrow> (string option \<times> string) list" where
  "matches (Lit l) s =
     (if take (length l) s = l then [(None, drop (length l) s)] else [])"
| "matches (Chars p n) s =
     (if n \<le> length s \<and> list_all p (take n s) then [(None, drop n s)] else [])"
| "matches AnyStar s =
     map (\<lambda>k. (None, drop k s))
       (rev [0 ..< Suc (length (takeWhile (\<lambda>c. c \<noteq> CHR 0x0A) s))])"
| "matches (Alt a b) s = matches a s @ matches b s"
| "matches (Group a) s =
     map (\<lambda>(g, rest). (Some (take (length s - length rest) s), rest)) (matches a s)"
| "matches (Seq a b) s =
     concat (map (\<lambda>(g, rest).
        map (\<lambda>(g', rest'). (case g' of None \<Rightarrow> g | Some x \<Rightarrow> Some x, rest'))
          (matches b rest)) (matches a s))"

text \<open>
  \<^verbatim>\<open>re.search(pattern, url)\<close> tries every start position from left to right, the end of
  the string included, and keeps the first way the pattern matches there. The result is
  \<open>None\<close> for no match and \<open>Some g\<close> for a match object whose \<^verbatim>\<open>group(1)\<close> is \<open>g\<close>.
\<close>

fun re_search :: "regex \<Rightarrow> string \<Rightarrow> string option option" where
  "re_search r [] = (case matches r [] of [] \<Rightarrow> None | (g, rest) # _ \<Rightarrow> Some g)"
| "re_search r (c # cs) =
     (case matches r (c # cs) of [] \<Rightarrow> re_search r cs | (g, rest) # _ \<Rightarrow> Some g)"

section \<open>\<^verbatim>\<open>extract_video_id\<close>\<close>

text \<open>The class \<^verbatim>\<open>[0-9A-Za-z_-]\<close>: three ranges of code points, underscore and hyphen.\<close>

definition id_char :: "char \<Rightarrow> bool" where
  "id_char c =
     (let n = (of_char c :: nat) in
        (48 \<le> n \<and> n \<le> 57) \<or> (65 \<le> n \<and> n \<le> 90) \<or> (97 \<le> n \<and> n \<le> 122)
        \<or> c = CHR ''_'' \<or> c = CHR ''-'')"

definition patterns :: "regex list" where
  "patterns =
    [Seq (Alt (Lit ''v='') (Lit ''/'')) (Seq (Group (Chars id_char 11)) AnyStar),
     Seq (Lit ''embed/'') (Group (Chars id_char 11)),
     Seq (Lit ''watch?v='') (Group (Chars id_char 11)),
     Seq (Lit ''youtu.be/'') (Group (Chars id_char 11))]"

text \<open>
  The loop over the patterns: the first pattern that is found anywhere in the URL
  returns its \<^verbatim>\<open>group(1)\<close>; \<open>None\<close> when the loop ends.
\<close>

fun first_match :: "regex list \<Rightarrow> string \<Rightarrow> string option" where
  "first_match [] url = None"
| "first_match (p # ps) url =
     (case re_search p url of Some g \<Rightarrow> g | None \<Rightarrow> first_match ps url)"

definition extract_video_id :: "string \<Rightarrow> string option" where
  "extract_video_id url = first_match patterns url"

subsection \<open>What the properties of the extractor are stated with\<close>

text \<open>The alphabet of a video identifier, letter by letter.\<close>

definition alphabet :: string where
  "alphabet =
     ''0123456789'' @ ''ABCDEFGHIJKLMNOPQRSTUVWXYZ'' @ ''abcdefghijklmnopqrstuvwxyz'' @ ''_-''"

text \<open>
  The accepted URL shapes that carry the identifier \<open>ident\<close>, each followed by any further
  text \<open>rest\<close> (a query string, a fragment, nothing): the watch link, the embed link, both
  under the usual schemes and hosts, the bare \<^verbatim>\<open>watch?v=\<close> form and the short link.
\<close>

definition schemes :: "string list" where
  "schemes = [''https://'', ''http://'', '''']"

definition hosts :: "string list" where
  "hosts =
     [''www.youtube.com'', ''youtube.com'', ''m.youtube.com'', ''music.youtube.com'',
      ''www.youtube-nocookie.com'']"

definition watch_urls :: "string \<Rightarrow> string \<Rightarrow> string list" where
  "watch_urls ident rest =
     concat (map (\<lambda>s. map (\<lambda>h. s @ h @ ''/watch?v='' @ ident @ rest) hosts) schemes)"

definition embed_urls :: "string \<Rightarrow> string \<Rightarrow> string list" where
  "embed_urls ident rest =
     concat (map (\<lambda>s. map (\<lambda>h. s @ h @ ''/embed/'' @ ident @ rest) hosts) schemes)"

definition param_urls :: "string \<Rightarrow> string \<Rightarrow> string list" where
  "param_urls ident rest = [''watch?v='' @ ident @ rest]"

definition short_urls :: "string \<Rightarrow> string \<Rightarrow> string list" where
  "short_urls ident rest = map (\<lambda>s. s @ ''youtu.be/'' @ ident @ rest) schemes"

definition accepted_urls :: "string \<Rightarrow> string \<Rightarrow> string list" where
  "accepted_urls ident rest =
     watch_urls ident rest @ embed_urls ident rest @ param_urls ident rest
     @ short_urls ident rest"

section \<open>The transcript source\<close>

text \<open>
  The transcript library is a collaborator of the program, not part of it. It is modelled
  by the data and the calls that \<^verbatim>\<open>get_transcript\<close> uses. An exception raised by the
  library is a value of type \<open>exn\<close>: the three classes that \<^verbatim>\<open>get_transcript\<close> names in
  its handlers, and any other exception, kept with its \<^verbatim>\<open>str(e)\<close>.
\<close>

datatype exn =
    TranscriptsDisabled
  | NoTranscriptFound
  | VideoUnavailable
  | OtherError string

text \<open>A fetched transcript is a sequence of snippets; the program reads only their text.\<close>

datatype snippet = Snippet (snippet_text: string)

text \<open>
  A track: its human-readable language (\<^verbatim>\<open>transcript.language\<close>), its language code
  (the key under which the library files it) and the outcome of \<^verbatim>\<open>transcript.fetch()\<close>,
  which returns the snippets or raises.
\<close>

record transcript =
  language :: string
  language_code :: string
  fetch :: "exn + snippet list"

text \<open>
  A track list keeps the manually created tracks apart from the generated ones; whether
  a track is manually authored or auto-generated is which of the two it is in.
  Iterating over the list yields the manually created tracks, then the generated ones.
\<close>

record transcript_list =
  manually_created :: "transcript list"
  generated :: "transcript list"

definition tracks :: "transcript_list \<Rightarrow> transcript list" where
  "tracks tlist = manually_created tlist @ generated tlist"

text \<open>
  The library's lookup by language codes, as its documentation gives it: for each
  requested code in turn, the first of the given collections that has a track under that
  code; \<open>NoTranscriptFound\<close> when no code is found. \<^verbatim>\<open>find_transcript\<close> looks among the
  manually created tracks and, only if none is found there, among the generated ones (an
  English track ``in any form''); \<^verbatim>\<open>find_generated_transcript\<close> looks among the generated
  ones only. A code is found by equality: \<^verbatim>\<open>en\<close> does not find a track filed under
  another code.
\<close>

fun first_with :: "string \<Rightarrow> transcript list list \<Rightarrow> transcript option" where
  "first_with code [] = None"
| "first_with code (d # ds) =
     (case find (\<lambda>t. language_code t = code) d of
        Some t \<Rightarrow> Some t
      | None \<Rightarrow> first_with code ds)"

fun find_in :: "string list \<Rightarrow> transcript list list \<Rightarrow> exn + transcript" where
  "find_in [] dicts = Inl NoTranscriptFound"
| "find_in (code # codes) dicts =
     (case first_with code dicts of Some t \<Rightarrow> Inr t | None \<Rightarrow> find_in codes dicts)"

definition find_transcript :: "transcript_list \<Rightarrow> string list \<Rightarrow> exn + transcript" where
  "find_transcript tlist codes = find_in codes [manually_created tlist, generated tlist]"

definition find_generated_transcript ::
  "transcript_list \<Rightarrow> string list \<Rightarrow> exn + transcript" where
  "find_generated_transcript tlist codes = find_in codes [generated tlist]"

text \<open>
  What the program does not determine is taken as a parameter: the outcome of
  \<^verbatim>\<open>api.list(video_id)\<close> for each video identifier, and the outcome of
  \<^verbatim>\<open>find_manually_created_transcript()\<close>, which the program calls with no language
  codes although the library's method expects them. The model does not fix what this
  call does. The only thing assumed of it (\<open>manual_lookup_ok\<close>) is that a track it
  returns is one of the manually created tracks of the list; it may as well raise on
  every list, and whatever it raises is caught by the bare \<^verbatim>\<open>except\<close> around it.
\<close>

record transcript_api =
  list_transcripts :: "string \<Rightarrow> exn + transcript_list"
  find_manually_created_transcript :: "transcript_list \<Rightarrow> exn + transcript"

definition manual_lookup_ok :: "transcript_api \<Rightarrow> transcript_list \<Rightarrow> bool" where
  "manual_lookup_ok api tlist =
     (case find_manually_created_transcript api tlist of
        Inl e \<Rightarrow> True
      | Inr t \<Rightarrow> t \<in> set (manually_created tlist))"

section \<open>\<^verbatim>\<open>get_transcript\<close>\<close>

text \<open>
  The body of each of the first three \<^verbatim>\<open>try\<close> blocks: a lookup, then
  \<^verbatim>\<open>return transcript.fetch(), label\<close>. Either call may raise.
\<close>

definition fetch_labelled ::
  "exn + transcript \<Rightarrow> (transcript \<Rightarrow> string) \<Rightarrow> exn + snippet list \<times> string" where
  "fetch_labelled found label =
     (case found of
        Inl e \<Rightarrow> Inl e
      | Inr t \<Rightarrow> (case fetch t of Inl e \<Rightarrow> Inl e | Inr d \<Rightarrow> Inr (d, label t)))"

definition tier1 :: "transcript_list \<Rightarrow> exn + snippet list \<times> string" where
  "tier1 tlist = fetch_labelled (find_transcript tlist [''en'']) (\<lambda>t. ''English'')"

definition tier2 :: "transcript_api \<Rightarrow> transcript_list \<Rightarrow> exn + snippet list \<times> string" where
  "tier2 api tlist = fetch_labelled (find_manually_created_transcript api tlist) language"

definition tier3 :: "transcript_list \<Rightarrow> exn + snippet list \<times> string" where
  "tier3 tlist =
     fetch_labelled (find_generated_transcript tlist [''en'']) (\<lambda>t. ''English (auto-generated)'')"

text \<open>
  The result of \<^verbatim>\<open>get_transcript\<close> when it returns: the pair of the fetched transcript
  and the label, or \<^verbatim>\<open>(None, None)\<close>.
\<close>

type_synonym resolved = "snippet list option \<times> string option"

text \<open>
  The \<^verbatim>\<open>for\<close> loop over the track list: the first track whose fetch does not raise is
  returned with its own language; a track whose fetch raises is skipped
  (\<^verbatim>\<open>continue\<close>); \<^verbatim>\<open>(None, None)\<close> after the loop.
\<close>

fun first_fetchable :: "transcript list \<Rightarrow> resolved" where
  "first_fetchable [] = (None, None)"
| "first_fetchable (t # ts) =
     (case fetch t of
        Inr d \<Rightarrow> (Some d, Some (language t))
      | Inl e \<Rightarrow> first_fetchable ts)"

text \<open>
  The statements after \<^verbatim>\<open>api.list(video_id)\<close> has returned. Each \<^verbatim>\<open>try\<close> block returns
  on success; its bare \<^verbatim>\<open>except: pass\<close> catches whatever was raised and goes on.
\<close>

definition select_transcript :: "transcript_api \<Rightarrow> transcript_list \<Rightarrow> resolved" where
  "select_transcript api tlist =
     (case tier1 tlist of
        Inr (d, l) \<Rightarrow> (Some d, Some l)
      | Inl e1 \<Rightarrow>
     (case tier2 api tlist of
        Inr (d, l) \<Rightarrow> (Some d, Some l)
      | Inl e2 \<Rightarrow>
     (case tier3 tlist of
        Inr (d, l) \<Rightarrow> (Some d, Some l)
      | Inl e3 \<Rightarrow> first_fetchable (tracks tlist))))"

text \<open>
  The handlers of the outer \<^verbatim>\<open>try\<close>: each raises one \<^verbatim>\<open>Exception\<close> with a message.
\<close>

datatype py_exception = Exception string

definition error_message :: "exn \<Rightarrow> string" where
  "error_message e =
     (case e of
        TranscriptsDisabled \<Rightarrow> ''Transcripts are disabled for this video''
      | NoTranscriptFound \<Rightarrow> ''No transcripts found for this video''
      | VideoUnavailable \<Rightarrow> ''Video is unavailable or private''
      | OtherError cause \<Rightarrow> ''Error fetching transcript: '' @ cause)"

text \<open>
  \<^verbatim>\<open>get_transcript\<close>. The listing request is the one call to the source that no
  \<^verbatim>\<open>try\<close> block of a tier encloses. The number of listing requests made so far is
  passed through, so that a second request would show.
\<close>

definition api_list ::
  "transcript_api \<Rightarrow> string \<Rightarrow> nat \<Rightarrow> (exn + transcript_list) \<times> nat" where
  "api_list api video_id requests = (list_transcripts api video_id, Suc requests)"

definition get_transcript ::
  "transcript_api \<Rightarrow> string \<Rightarrow> nat \<Rightarrow> (py_exception + resolved) \<times> nat" where
  "get_transcript api video_id requests =
     (case api_list api video_id requests of
        (Inl e, requests') \<Rightarrow> (Inl (Exception (error_message e)), requests')
      | (Inr transcript_list, requests') \<Rightarrow>
          (Inr (select_transcript api transcript_list), requests'))"

subsection \<open>The caller of \<^verbatim>\<open>get_transcript\<close>\<close>

text \<open>
  The errors that the fetching step of the button handler displays before it stops the
  run (\<^verbatim>\<open>st.error(...)\<close>, then \<^verbatim>\<open>st.stop()\<close>):
  \<^item> \<open>NoTranscriptAvailable\<close>: ``No transcript available for this video.'';
  \<^item> \<open>TranscriptEmpty\<close>: ``Transcript is empty.'';
  \<^item> \<open>CouldNotFetch m\<close>: ``Could not fetch transcript: '' followed by \<open>m\<close>.
\<close>

datatype ui_error = NoTranscriptAvailable | TranscriptEmpty | CouldNotFetch string

fun join_space :: "string list \<Rightarrow> string" where
  "join_space [] = []"
| "join_space [x] = x"
| "join_space (x # y # zs) = x @ '' '' @ join_space (y # zs)"

text \<open>The characters that \<^verbatim>\<open>str.strip()\<close> removes, by code point.\<close>

definition isspace :: "char \<Rightarrow> bool" where
  "isspace c =
     (let n = (of_char c :: nat) in
        (9 \<le> n \<and> n \<le> 13) \<or> (28 \<le> n \<and> n \<le> 32) \<or> n = 133 \<or> n = 160)"

definition strip :: "string \<Rightarrow> string" where
  "strip s = rev (dropWhile isspace (rev (dropWhile isspace s)))"

text \<open>
  The fetching step: \<^verbatim>\<open>not transcript_data\<close> holds for \<^verbatim>\<open>None\<close> and for a transcript
  with no snippet. On success the step goes on with the text and the language.
\<close>

definition fetch_step ::
  "transcript_api \<Rightarrow> string \<Rightarrow> nat \<Rightarrow> (ui_error + string \<times> string option) \<times> nat" where
  "fetch_step api video_id requests =
     (case get_transcript api video_id requests of
        (Inl (Exception m), requests') \<Rightarrow> (Inl (CouldNotFetch m), requests')
      | (Inr (transcript_data, lang), requests') \<Rightarrow>
          (case transcript_data of
             None \<Rightarrow> (Inl NoTranscriptAvailable, requests')
           | Some d \<Rightarrow>
               if d = [] then (Inl NoTranscriptAvailable, requests')
               else
                 let text = join_space (map snippet_text d) in
                 if strip text = [] then (Inl TranscriptEmpty, requests')
                 else (Inr (text, lang), requests')))"

subsection \<open>What the properties of the resolver are stated with\<close>

text \<open>
  The preference order as a list of attempts, each a success or a failure: the three
  lookups, then one attempt for every track in the order of the iteration. The policy
  takes the first success of the list.
\<close>

definition attempts ::
  "transcript_api \<Rightarrow> transcript_list \<Rightarrow> (exn + snippet list \<times> string) list" where
  "attempts api tlist =
     [tier1 tlist, tier2 api tlist, tier3 tlist]
     @ map (\<lambda>t. fetch_labelled (Inr t) language) (tracks tlist)"

fun first_success :: "(exn + 'a) list \<Rightarrow> 'a option" where
  "first_success [] = None"
| "first_success (Inr x # rs) = Some x"
| "first_success (Inl e # rs) = first_success rs"

definition policy_result :: "(snippet list \<times> string) option \<Rightarrow> resolved" where
  "policy_result r = (case r of None \<Rightarrow> (None, None) | Some (d, l) \<Rightarrow> (Some d, Some l))"

text \<open>Tracks and sources that the properties are tried on.\<close>

definition english_manual :: transcript where
  "english_manual =
     \<lparr>language = ''English'', language_code = ''en'',
      fetch = Inr [Snippet ''hello'', Snippet ''world'']\<rparr>"

definition french_manual :: transcript where
  "french_manual =
     \<lparr>language = ''French'', language_code = ''fr'', fetch = Inr [Snippet ''bonjour'']\<rparr>"

definition english_generated :: transcript where
  "english_generated =
     \<lparr>language = ''English (auto-generated)'', language_code = ''en'',
      fetch = Inr [Snippet ''hello world'']\<rparr>"

definition blocked_track :: transcript where
  "blocked_track =
     \<lparr>language = ''German'', language_code = ''de'',
      fetch = Inl (OtherError ''connection reset'')\<rparr>"

text \<open>
  A source that lists the same tracks for every video; its lookup of a manually created
  track with no language codes raises.
\<close>

definition source_of :: "transcript list \<Rightarrow> transcript list \<Rightarrow> transcript_api" where
  "source_of manual auto =
     \<lparr>list_transcripts = (\<lambda>video_id. Inr \<lparr>manually_created = manual, generated = auto\<rparr>),
      find_manually_created_transcript = (\<lambda>tlist. Inl (OtherError ''missing argument''))\<rparr>"

text \<open>A source like it whose lookup returns the first manually created track.\<close>

definition source_first_manual :: "transcript list \<Rightarrow> transcript list \<Rightarrow> transcript_api" where
  "source_first_manual manual auto =
     \<lparr>list_transcripts = (\<lambda>video_id. Inr \<lparr>manually_created = manual, generated = auto\<rparr>),
      find_manually_created_transcript =
        (\<lambda>tlist. case manually_created tlist of [] \<Rightarrow> Inl NoTranscriptFound | t # ts \<Rightarrow> Inr t)\<rparr>"

text \<open>A source whose listing request raises.\<close>

definition failing_source :: "exn \<Rightarrow> transcript_api" where
  "failing_source e =
     \<lparr>list_transcripts = (\<lambda>video_id. Inl e),
      find_manually_created_transcript = (\<lambda>tlist. Inl NoTranscriptFound)\<rparr>"

section \<open>The prompt\<close>

text \<open>
  The options of the summary type selector and the dictionary \<^verbatim>\<open>summary_instructions\<close>,
  which is indexed with the selected option; a key that is not in it raises \<^verbatim>\<open>KeyError\<close>.
\<close>

definition summary_types :: "string list" where
  "summary_types = [''Comprehensive'', ''Key Points'', ''Quick Overview'', ''Detailed Analysis'']"

definition summary_instructions :: "(string \<times> string) list" where
  "summary_instructions =
    [(''Comprehensive'',
      ''Provide a detailed, comprehensive summary covering all major topics and subtopics.''),
     (''Key Points'',
      ''Extract and list the key points and main takeaways in bullet format.''),
     (''Quick Overview'',
      ''Provide a brief, concise overview in 3-4 sentences.''),
     (''Detailed Analysis'',
      ''Provide an in-depth analysis including themes, arguments, and insights.'')]"

datatype py_error = KeyError string

definition MAX_CHARS :: nat where
  "MAX_CHARS = 30000"

text \<open>
  What the page shows while the prompt is built: \<open>TruncationWarning n\<close> is the warning
  ``Transcript truncated to \<open>n\<close> characters for processing.''
\<close>

datatype notice = TruncationWarning nat

text \<open>The truncation: the new value of \<^verbatim>\<open>text\<close> and the warnings displayed.\<close>

definition truncate_text :: "string \<Rightarrow> string \<times> notice list" where
  "truncate_text text =
     (if length text > MAX_CHARS
      then (take MAX_CHARS text, [TruncationWarning MAX_CHARS])
      else (text, []))"

text \<open>
  The formatted string literal, its literal parts and its replacement fields in their
  order. The first line ends with a space before the line feed, as in the source.
\<close>

definition render_prompt :: "string \<Rightarrow> string \<Rightarrow> string \<Rightarrow> string \<Rightarrow> string" where
  "render_prompt task user_query lang text =
     concat
      [''You are an expert video content analyst. \<newline>**Task:** '',
       task,
       ''\<newline>**Additional User Instructions:** '',
       (if user_query \<noteq> [] then user_query else ''None''),
       ''\<newline>**Video Transcript (Language: '',
       lang,
       ''):**\<newline>'',
       text,
       ''\<newline>Please provide a well-structured response with clear sections and formatting.'']"

text \<open>
  The statements from the truncation to the prompt: the warning is displayed before the
  dictionary is indexed, so it is part of the result also when the key is missing.
\<close>

definition compose_prompt ::
  "string \<Rightarrow> string \<Rightarrow> string \<Rightarrow> string \<Rightarrow> notice list \<times> (py_error + string)" where
  "compose_prompt summary_type user_query lang text =
     (case truncate_text text of
        (text', notices) \<Rightarrow>
          (notices,
           case map_of summary_instructions summary_type of
             None \<Rightarrow> Inl (KeyError summary_type)
           | Some task \<Rightarrow> Inr (render_prompt task user_query lang text')))"

subsection \<open>What the properties of the prompt are stated with\<close>

text \<open>\<open>embeds ps s\<close>: the strings \<open>ps\<close> occur in \<open>s\<close> one after the other, in this order.\<close>

inductive embeds :: "string list \<Rightarrow> string \<Rightarrow> bool" where
  embeds_Nil: "embeds [] s"
| embeds_Cons: "embeds ps rest \<Longrightarrow> embeds (p # ps) (pre @ p @ rest)"

section \<open>Properties of the extractor\<close>

subsection \<open>The character class and the alphabet\<close>

lemma digits_eq: "map char_of [48..<58::nat] = ''0123456789''"
  by code_simp

lemma upper_eq: "map char_of [65..<91::nat] = ''ABCDEFGHIJKLMNOPQRSTUVWXYZ''"
  by code_simp

lemma lower_eq: "map char_of [97..<123::nat] = ''abcdefghijklmnopqrstuvwxyz''"
  by code_simp

lemma in_range_char:
  assumes "lo \<le> of_char c" "(of_char c :: nat) < hi"
  shows "c \<in> set (map char_of [lo..<hi])"
proof -
  have "(of_char c :: nat) \<in> set [lo..<hi]"
    using assms by simp
  then have "char_of (of_char c :: nat) \<in> char_of ` set [lo..<hi]"
    by (rule imageI)
  then show ?thesis by simp
qed

lemma alphabet_id_char: "c \<in> set alphabet \<Longrightarrow> id_char c"
  by (auto simp: alphabet_def id_char_def)

lemma id_char_alphabet: "id_char c \<Longrightarrow> c \<in> set alphabet"
proof -
  assume a: "id_char c"
  define n where "n = (of_char c :: nat)"
  from a consider "48 \<le> n \<and> n < 58" | "65 \<le> n \<and> n < 91" | "97 \<le> n \<and> n < 123"
    | "c = CHR ''_''" | "c = CHR ''-''"
    by (auto simp: id_char_def n_def Let_def)
  then show ?thesis
  proof cases
    case 1
    then have "c \<in> set (map char_of [48..<58::nat])"
      unfolding n_def by (intro in_range_char) simp_all
    then show ?thesis
      unfolding digits_eq alphabet_def by (simp only: set_append Un_iff simp_thms)
  next
    case 2
    then have "c \<in> set (map char_of [65..<91::nat])"
      unfolding n_def by (intro in_range_char) simp_all
    then show ?thesis
      unfolding upper_eq alphabet_def by (simp only: set_append Un_iff simp_thms)
  next
    case 3
    then have "c \<in> set (map char_of [97..<123::nat])"
      unfolding n_def by (intro in_range_char) simp_all
    then show ?thesis
      unfolding lower_eq alphabet_def by (simp only: set_append Un_iff simp_thms)
  next
    case 4
    then show ?thesis by (simp add: alphabet_def)
  next
    case 5
    then show ?thesis by (simp add: alphabet_def)
  qed
qed

lemma list_all_id_char: "list_all id_char v \<longleftrightarrow> set v \<subseteq> set alphabet"
  by (auto simp: list_all_iff dest: id_char_alphabet alphabet_id_char)

subsection \<open>What a match captures\<close>

lemma matches_group_chars:
  "matches (Group (Chars p n)) s =
     (if n \<le> length s \<and> list_all p (take n s) then [(Some (take n s), drop n s)] else [])"
  by simp

lemma pattern_captures:
  assumes "p \<in> set patterns" "(g, rest) \<in> set (matches p s)"
  shows "\<exists>v. g = Some v \<and> length v = 11 \<and> list_all id_char v"
  using assms unfolding patterns_def
  by (auto simp del: matches.simps(2,5) upt_Suc
      simp add: matches_group_chars split: if_splits)

lemma re_search_in_matches:
  "re_search r s = Some g \<Longrightarrow> \<exists>s' rest. (g, rest) \<in> set (matches r s')"
proof (induction s)
  case Nil
  show ?case
  proof (cases "matches r []")
    case Nil
    with Nil.prems show ?thesis by simp
  next
    case (Cons m ms)
    with Nil.prems have "(g, snd m) \<in> set (matches r [])"
      by (cases m) simp
    then show ?thesis by blast
  qed
next
  case (Cons c cs)
  show ?case
  proof (cases "matches r (c # cs)")
    case Nil
    with Cons show ?thesis by simp
  next
    case (Cons m ms)
    with Cons.prems have "(g, snd m) \<in> set (matches r (c # cs))"
      by (cases m) simp
    then show ?thesis by blast
  qed
qed

lemma patterns_search_captures:
  assumes "p \<in> set patterns" "re_search p url = Some g"
  shows "\<exists>v. g = Some v \<and> length v = 11 \<and> list_all id_char v"
proof -
  from assms(2) obtain s' rest where "(g, rest) \<in> set (matches p s')"
    using re_search_in_matches by blast
  with assms(1) show ?thesis by (rule pattern_captures)
qed

lemma first_match_Some:
  "first_match ps url = Some v \<Longrightarrow> \<exists>p\<in>set ps. re_search p url = Some (Some v)"
  by (induction ps) (auto split: option.splits)

lemma first_match_None:
  assumes "\<And>p g. p \<in> set ps \<Longrightarrow> re_search p url = Some g \<Longrightarrow> g \<noteq> None"
  shows "first_match ps url = None \<longleftrightarrow> (\<forall>p\<in>set ps. re_search p url = None)"
  using assms
proof (induction ps)
  case Nil
  show ?case by simp
next
  case (Cons p ps)
  have IH: "first_match ps url = None \<longleftrightarrow> (\<forall>p\<in>set ps. re_search p url = None)"
    by (rule Cons.IH) (use Cons.prems in auto)
  show ?case
  proof (cases "re_search p url")
    case None
    with IH show ?thesis by simp
  next
    case (Some g)
    with Cons.prems [of p g] have "g \<noteq> None" by simp
    with Some show ?thesis by auto
  qed
qed

lemma extract_video_id_None:
  "extract_video_id url = None \<longleftrightarrow> (\<forall>p\<in>set patterns. re_search p url = None)"
  unfolding extract_video_id_def
  by (rule first_match_None) (use patterns_search_captures in blast)

subsection \<open>The accepted shapes\<close>

lemma accepted_urls_extract:
  assumes "length ident = 11" "list_all id_char ident"
    and "url \<in> set (accepted_urls ident rest)"
  shows "extract_video_id url = Some ident"
  using assms
  by (auto simp: accepted_urls_def watch_urls_def embed_urls_def param_urls_def
      short_urls_def schemes_def hosts_def extract_video_id_def patterns_def id_char_def)

text \<open>
  Claim C6. For an identifier \<open>ident\<close> of 11 characters of the alphabet and a URL of one of
  the accepted shapes that carries it (watch link, embed link, \<^verbatim>\<open>watch?v=\<close> form, short
  link, each with any text after the identifier), \<open>extract_video_id\<close> returns \<open>ident\<close>.
  For any string, the result is \<open>None\<close> exactly when \<^verbatim>\<open>re.search\<close> finds none of the four
  patterns in it. The extractor is a total function into an option type: on every string
  it returns an identifier or \<open>None\<close>, and there is no third outcome.
\<close>

theorem extract_video_id_accepted_shapes:
  "(length ident = 11 \<and> set ident \<subseteq> set alphabet
      \<and> url \<in> set (accepted_urls ident rest)
     \<longrightarrow> extract_video_id url = Some ident)
   \<and> ((\<forall>p\<in>set patterns. re_search p s = None) \<longleftrightarrow> extract_video_id s = None)"
  using accepted_urls_extract [of ident url rest] extract_video_id_None [of s]
  by (simp add: list_all_id_char)

theorem extract_video_id_accepted_shapes_witness:
  "length ''dQw4w9WgXcQ'' = 11 \<and> set ''dQw4w9WgXcQ'' \<subseteq> set alphabet
   \<and> ''https://youtu.be/dQw4w9WgXcQ'' \<in> set (accepted_urls ''dQw4w9WgXcQ'' [])
   \<and> extract_video_id ''https://youtu.be/dQw4w9WgXcQ'' = Some ''dQw4w9WgXcQ''
   \<and> map (\<lambda>p. re_search p ''not a video link'') patterns = [None, None, None, None]
   \<and> extract_video_id ''not a video link'' = None"
  using extract_video_id_accepted_shapes
    [of "''dQw4w9WgXcQ''" "''https://youtu.be/dQw4w9WgXcQ''" "[]" "''not a video link''"]
  by (simp add: alphabet_def accepted_urls_def watch_urls_def embed_urls_def param_urls_def
      short_urls_def schemes_def hosts_def patterns_def id_char_def)

text \<open>
  Claim C10. On every input string the result of \<open>extract_video_id\<close> is \<open>None\<close> or a string
  of exactly 11 characters, each an ASCII letter, a digit, a hyphen or an underscore.
\<close>

theorem extract_video_id_result_shape:
  "extract_video_id url = None
   \<or> (\<exists>v. extract_video_id url = Some v \<and> length v = 11 \<and> set v \<subseteq> set alphabet)"
proof (cases "extract_video_id url")
  case None
  then show ?thesis by simp
next
  case (Some v)
  then obtain p where "p \<in> set patterns" "re_search p url = Some (Some v)"
    unfolding extract_video_id_def using first_match_Some by blast
  then have "length v = 11 \<and> list_all id_char v"
    using patterns_search_captures by blast
  with Some show ?thesis by (simp add: list_all_id_char)
qed

theorem extract_video_id_result_shape_witness:
  "extract_video_id ''https://www.youtube.com/embed/videoseries?list=PL'' = Some ''videoseries''
   \<and> length ''videoseries'' = 11 \<and> set ''videoseries'' \<subseteq> set alphabet"
  using extract_video_id_result_shape [of "''https://www.youtube.com/embed/videoseries?list=PL''"]
  by (simp add: alphabet_def extract_video_id_def patterns_def id_char_def)

section \<open>Properties of the resolver\<close>

subsection \<open>The lookups\<close>

lemma first_with_member:
  "first_with code dicts = Some t \<Longrightarrow> \<exists>d\<in>set dicts. t \<in> set d \<and> language_code t = code"
proof (induction dicts)
  case Nil
  then show ?case by simp
next
  case (Cons d ds)
  show ?case
  proof (cases "find (\<lambda>t. language_code t = code) d")
    case None
    with Cons show ?thesis by simp
  next
    case (Some u)
    with Cons.prems have "u = t" by simp
    with Some have "t \<in> set d \<and> language_code t = code"
      by (auto simp: find_Some_iff)
    then show ?thesis by simp
  qed
qed

lemma first_with_None:
  "first_with code dicts = None \<Longrightarrow> \<forall>d\<in>set dicts. \<forall>t\<in>set d. language_code t \<noteq> code"
  by (induction dicts) (auto simp: find_None_iff split: option.splits)

lemma find_in_member:
  "find_in codes dicts = Inr t \<Longrightarrow>
     \<exists>d\<in>set dicts. t \<in> set d \<and> language_code t \<in> set codes"
proof (induction codes)
  case Nil
  then show ?case by simp
next
  case (Cons code codes)
  show ?case
  proof (cases "first_with code dicts")
    case None
    with Cons show ?thesis by auto
  next
    case (Some u)
    with Cons.prems have "u = t" by simp
    with Some first_with_member [of code dicts t] show ?thesis by auto
  qed
qed

lemma find_transcript_member:
  "find_transcript tlist codes = Inr t \<Longrightarrow>
     t \<in> set (tracks tlist) \<and> language_code t \<in> set codes"
  unfolding find_transcript_def tracks_def by (drule find_in_member) auto

lemma find_generated_transcript_member:
  "find_generated_transcript tlist codes = Inr t \<Longrightarrow>
     t \<in> set (generated tlist) \<and> language_code t \<in> set codes"
  unfolding find_generated_transcript_def by (drule find_in_member) auto

lemma find_transcript_found:
  assumes "e \<in> set (tracks tlist)" "language_code e = code"
  shows "\<exists>t. find_transcript tlist [code] = Inr t"
proof (cases "first_with code [manually_created tlist, generated tlist]")
  case None
  from first_with_None [OF None] assms show ?thesis
    by (auto simp: tracks_def)
next
  case (Some t)
  then show ?thesis by (simp add: find_transcript_def)
qed

lemma find_transcript_absent:
  assumes "\<forall>t\<in>set (tracks tlist). language_code t \<noteq> code"
  shows "find_transcript tlist [code] = Inl NoTranscriptFound"
proof (cases "find_transcript tlist [code]")
  case (Inl e)
  then show ?thesis
    by (auto simp: find_transcript_def split: option.splits)
next
  case (Inr t)
  from find_transcript_member [OF Inr] assms show ?thesis by auto
qed

lemma find_generated_transcript_absent:
  assumes "\<forall>t\<in>set (generated tlist). language_code t \<noteq> code"
  shows "find_generated_transcript tlist [code] = Inl NoTranscriptFound"
proof (cases "find_generated_transcript tlist [code]")
  case (Inl e)
  then show ?thesis
    by (auto simp: find_generated_transcript_def split: option.splits)
next
  case (Inr t)
  from find_generated_transcript_member [OF Inr] assms show ?thesis by auto
qed

subsection \<open>The tiers\<close>

lemma fetch_labelled_Inr:
  "fetch_labelled found label = Inr (d, l) \<longleftrightarrow>
     (\<exists>t. found = Inr t \<and> fetch t = Inr d \<and> l = label t)"
  by (auto simp: fetch_labelled_def split: sum.splits)

lemma fetch_labelled_fails:
  assumes "\<And>t. found = Inr t \<Longrightarrow> isl (fetch t)"
  shows "isl (fetch_labelled found label)"
  using assms by (cases found) (auto simp: fetch_labelled_def split: sum.splits)

lemma first_fetchable_policy:
  "first_fetchable ts =
     policy_result (first_success (map (\<lambda>t. fetch_labelled (Inr t) language) ts))"
proof (induction ts)
  case Nil
  show ?case by (simp add: policy_result_def)
next
  case (Cons t ts)
  then show ?case
    by (cases "fetch t") (simp_all add: fetch_labelled_def policy_result_def)
qed

lemma first_fetchable_none:
  "\<forall>t\<in>set ts. isl (fetch t) \<Longrightarrow> first_fetchable ts = (None, None)"
  by (induction ts) (auto split: sum.splits)

lemma first_success_skip:
  "list_all isl fs \<Longrightarrow> first_success (fs @ rest) = first_success rest"
proof (induction fs)
  case Nil
  show ?case by simp
next
  case (Cons f fs)
  then show ?case by (cases f) simp_all
qed

lemma select_transcript_policy:
  "select_transcript api tlist = policy_result (first_success (attempts api tlist))"
proof (cases "tier1 tlist")
  case (Inr r)
  then show ?thesis
    by (cases r) (simp add: select_transcript_def attempts_def policy_result_def)
next
  case e1: (Inl e1)
  show ?thesis
  proof (cases "tier2 api tlist")
    case (Inr r)
    with e1 show ?thesis
      by (cases r) (simp add: select_transcript_def attempts_def policy_result_def)
  next
    case e2: (Inl e2)
    show ?thesis
    proof (cases "tier3 tlist")
      case (Inr r)
      with e1 e2 show ?thesis
        by (cases r) (simp add: select_transcript_def attempts_def policy_result_def)
    next
      case e3: (Inl e3)
      with e1 e2 show ?thesis
        by (simp add: select_transcript_def attempts_def first_fetchable_policy)
    qed
  qed
qed

lemma error_message_inj: "error_message e = error_message e' \<Longrightarrow> e = e'"
  by (cases e; cases e') (simp_all add: error_message_def)

lemma get_transcript_listed:
  "list_transcripts api video_id = Inr tlist \<Longrightarrow>
     get_transcript api video_id requests = (Inr (select_transcript api tlist), Suc requests)"
  by (simp add: get_transcript_def api_list_def)

text \<open>
  Claim C1. The source lists, for the video, tracks among which there are an English
  entry (language code \<^verbatim>\<open>en\<close>, manually authored or generated) and a manually authored
  entry that is not English, and each English entry can be fetched. Then
  \<open>get_transcript\<close> returns the fetched transcript of an English entry with the label
  ``English'': the first lookup wins over the lookup of a manually authored track.
\<close>

theorem get_transcript_english_first:
  assumes "list_transcripts api video_id = Inr tlist"
    and "e \<in> set (tracks tlist)" "language_code e = ''en''"
    and "m \<in> set (manually_created tlist)" "language_code m \<noteq> ''en''"
    and "\<forall>t\<in>set (tracks tlist). language_code t = ''en'' \<longrightarrow> \<not> isl (fetch t)"
  shows "\<exists>t d. t \<in> set (tracks tlist) \<and> language_code t = ''en'' \<and> fetch t = Inr d
           \<and> fst (get_transcript api video_id requests) = Inr (Some d, Some ''English'')"
proof -
  from assms(2,3) obtain t where t: "find_transcript tlist [''en''] = Inr t"
    using find_transcript_found by blast
  then have mem: "t \<in> set (tracks tlist)" and code: "language_code t = ''en''"
    using find_transcript_member [OF t] by simp_all
  with assms(6) obtain d where d: "fetch t = Inr d"
    by (cases "fetch t") auto
  from t d have "tier1 tlist = Inr (d, ''English'')"
    by (simp add: tier1_def fetch_labelled_def)
  then have "select_transcript api tlist = (Some d, Some ''English'')"
    by (simp add: select_transcript_def)
  with assms(1) have "fst (get_transcript api video_id requests) = Inr (Some d, Some ''English'')"
    by (simp add: get_transcript_listed)
  with mem code d show ?thesis by blast
qed

theorem get_transcript_english_first_witness:
  "list_transcripts (source_first_manual [french_manual] [english_generated]) ''dQw4w9WgXcQ''
     = Inr \<lparr>manually_created = [french_manual], generated = [english_generated]\<rparr>
   \<and> language_code english_generated = ''en''
   \<and> language_code french_manual = ''fr''
   \<and> fetch english_generated = Inr [Snippet ''hello world'']
   \<and> fst (get_transcript (source_first_manual [french_manual] [english_generated])
        ''dQw4w9WgXcQ'' 0) = Inr (Some [Snippet ''hello world''], Some ''English'')"
  using get_transcript_english_first
    [of "source_first_manual [french_manual] [english_generated]" "''dQw4w9WgXcQ''"
      "\<lparr>manually_created = [french_manual], generated = [english_generated]\<rparr>"
      english_generated french_manual 0]
  by (auto simp: source_first_manual_def tracks_def english_generated_def french_manual_def)

text \<open>
  Claim C2. The only track listed for the video is a manually authored track that is not
  English (a French one, say), and it can be fetched. Then \<open>get_transcript\<close> returns its
  fetched transcript labelled with the track's own language (``French''), whatever the
  lookup of a manually created track without language codes does.
\<close>

theorem get_transcript_only_manual:
  assumes "list_transcripts api video_id = Inr tlist"
    and "manually_created tlist = [t]" "generated tlist = []"
    and "language_code t \<noteq> ''en''"
    and "fetch t = Inr d"
    and "manual_lookup_ok api tlist"
  shows "fst (get_transcript api video_id requests) = Inr (Some d, Some (language t))"
proof -
  have tr: "tracks tlist = [t]"
    using assms(2,3) by (simp add: tracks_def)
  have "find_transcript tlist [''en''] = Inl NoTranscriptFound"
    by (rule find_transcript_absent) (use tr assms(4) in simp)
  then have t1: "tier1 tlist = Inl NoTranscriptFound"
    by (simp add: tier1_def fetch_labelled_def)
  have "find_generated_transcript tlist [''en''] = Inl NoTranscriptFound"
    by (rule find_generated_transcript_absent) (use assms(3) in simp)
  then have t3: "tier3 tlist = Inl NoTranscriptFound"
    by (simp add: tier3_def fetch_labelled_def)
  have "select_transcript api tlist = (Some d, Some (language t))"
  proof (cases "find_manually_created_transcript api tlist")
    case (Inl e)
    then have "tier2 api tlist = Inl e"
      by (simp add: tier2_def fetch_labelled_def)
    with t1 t3 tr assms(5) show ?thesis
      by (simp add: select_transcript_def)
  next
    case (Inr u)
    with assms(2,6) have "u = t"
      by (simp add: manual_lookup_ok_def)
    with Inr assms(5) have "tier2 api tlist = Inr (d, language t)"
      by (simp add: tier2_def fetch_labelled_def)
    with t1 show ?thesis
      by (simp add: select_transcript_def)
  qed
  with assms(1) show ?thesis
    by (simp add: get_transcript_listed)
qed

theorem get_transcript_only_manual_witness:
  "list_transcripts (source_of [french_manual] []) ''dQw4w9WgXcQ''
     = Inr \<lparr>manually_created = [french_manual], generated = []\<rparr>
   \<and> language_code french_manual = ''fr''
   \<and> fetch french_manual = Inr [Snippet ''bonjour'']
   \<and> manual_lookup_ok (source_of [french_manual] [])
        \<lparr>manually_created = [french_manual], generated = []\<rparr>
   \<and> fst (get_transcript (source_of [french_manual] []) ''dQw4w9WgXcQ'' 0)
        = Inr (Some [Snippet ''bonjour''], Some ''French'')"
  using get_transcript_only_manual
    [of "source_of [french_manual] []" "''dQw4w9WgXcQ''"
      "\<lparr>manually_created = [french_manual], generated = []\<rparr>" french_manual
      "[Snippet ''bonjour'']" 0]
  by (simp add: source_of_def manual_lookup_ok_def french_manual_def)

lemma get_transcript_only_generated_english:
  assumes "list_transcripts api video_id = Inr tlist"
    and "manually_created tlist = []" "generated tlist = [t]"
    and "language_code t = ''en''" "fetch t = Inr d"
  shows "fst (get_transcript api video_id requests) = Inr (Some d, Some ''English'')"
proof -
  have "find_transcript tlist [''en''] = Inr t"
    using assms(2-4) by (simp add: find_transcript_def)
  with assms(5) have "tier1 tlist = Inr (d, ''English'')"
    by (simp add: tier1_def fetch_labelled_def)
  with assms(1) show ?thesis
    by (simp add: get_transcript_listed select_transcript_def)
qed

text \<open>
  Claim C3, at a video whose only track is an auto-generated English one: the first
  lookup, \<^verbatim>\<open>find_transcript(['en'])\<close>, finds the generated track, and the label returned
  is ``English'', not ``English (auto-generated)''.
\<close>

theorem get_transcript_generated_english_label:
  "fst (get_transcript (source_of [] [english_generated]) ''dQw4w9WgXcQ'' 0)
     = Inr (Some [Snippet ''hello world''], Some ''English'')"
  by (simp add: get_transcript_def api_list_def source_of_def select_transcript_def tier1_def
      fetch_labelled_def find_transcript_def english_generated_def)

text \<open>
  Claim C4. Once the tracks of the video are listed, no exception leaves
  \<open>get_transcript\<close>: whatever each lookup and each fetch raises, the result is the first
  success in the list of attempts (the three lookups, then every track in turn), and
  \<^verbatim>\<open>(None, None)\<close> when there is none. In particular, when the attempts up to some
  point all fail, the result is that of the attempts that remain.
\<close>

theorem get_transcript_falls_through:
  assumes "list_transcripts api video_id = Inr tlist"
  shows "fst (get_transcript api video_id requests)
           = Inr (policy_result (first_success (attempts api tlist)))
         \<and> (\<forall>fs rest. attempts api tlist = fs @ rest \<and> list_all isl fs \<longrightarrow>
              fst (get_transcript api video_id requests)
                = Inr (policy_result (first_success rest)))"
proof -
  have r: "fst (get_transcript api video_id requests)
      = Inr (policy_result (first_success (attempts api tlist)))"
    using assms by (simp add: get_transcript_listed select_transcript_policy)
  then show ?thesis
    by (auto simp: first_success_skip)
qed

theorem get_transcript_falls_through_witness:
  "list_transcripts (source_of [blocked_track, french_manual] []) ''dQw4w9WgXcQ''
     = Inr \<lparr>manually_created = [blocked_track, french_manual], generated = []\<rparr>
   \<and> attempts (source_of [blocked_track, french_manual] [])
        \<lparr>manually_created = [blocked_track, french_manual], generated = []\<rparr>
      = [Inl NoTranscriptFound, Inl (OtherError ''missing argument''), Inl NoTranscriptFound,
         Inl (OtherError ''connection reset'')]
        @ [Inr ([Snippet ''bonjour''], ''French'')]
   \<and> fst (get_transcript (source_of [blocked_track, french_manual] []) ''dQw4w9WgXcQ'' 0)
      = Inr (Some [Snippet ''bonjour''], Some ''French'')"
  using get_transcript_falls_through
    [of "source_of [blocked_track, french_manual] []" "''dQw4w9WgXcQ''"
      "\<lparr>manually_created = [blocked_track, french_manual], generated = []\<rparr>" 0]
  by (simp add: source_of_def attempts_def tier1_def tier2_def tier3_def fetch_labelled_def
      find_transcript_def find_generated_transcript_def tracks_def policy_result_def
      blocked_track_def french_manual_def)

text \<open>
  Claim C5. When the track list of the video is empty, and more generally when no track
  of it can be fetched, \<open>get_transcript\<close> returns \<^verbatim>\<open>(None, None)\<close>, never a track, and the
  caller reports that no transcript is available for the video.
\<close>

theorem get_transcript_no_track:
  assumes "list_transcripts api video_id = Inr tlist"
    and "\<forall>t\<in>set (tracks tlist). isl (fetch t)"
    and "manual_lookup_ok api tlist"
  shows "fst (get_transcript api video_id requests) = Inr (None, None)
         \<and> fst (fetch_step api video_id requests) = Inl NoTranscriptAvailable"
proof -
  have "isl (tier1 tlist)"
    unfolding tier1_def
    by (rule fetch_labelled_fails) (use assms(2) find_transcript_member in blast)
  moreover have "isl (tier2 api tlist)"
    unfolding tier2_def
  proof (rule fetch_labelled_fails)
    fix t assume "find_manually_created_transcript api tlist = Inr t"
    with assms(3) have "t \<in> set (tracks tlist)"
      by (simp add: manual_lookup_ok_def tracks_def)
    with assms(2) show "isl (fetch t)" by blast
  qed
  moreover have "isl (tier3 tlist)"
    unfolding tier3_def
  proof (rule fetch_labelled_fails)
    fix t assume "find_generated_transcript tlist [''en''] = Inr t"
    then have "t \<in> set (tracks tlist)"
      using find_generated_transcript_member by (auto simp: tracks_def)
    with assms(2) show "isl (fetch t)" by blast
  qed
  ultimately have "select_transcript api tlist = (None, None)"
    using first_fetchable_none [OF assms(2)]
    by (auto simp: select_transcript_def isl_def)
  with assms(1) have r: "get_transcript api video_id requests = (Inr (None, None), Suc requests)"
    by (simp add: get_transcript_listed)
  then show ?thesis
    by (simp add: fetch_step_def)
qed

theorem get_transcript_no_track_witness:
  "list_transcripts (source_first_manual [] []) ''dQw4w9WgXcQ''
     = Inr \<lparr>manually_created = [], generated = []\<rparr>
   \<and> tracks \<lparr>manually_created = [], generated = []\<rparr> = []
   \<and> manual_lookup_ok (source_first_manual [] []) \<lparr>manually_created = [], generated = []\<rparr>
   \<and> fst (get_transcript (source_first_manual [] []) ''dQw4w9WgXcQ'' 0) = Inr (None, None)
   \<and> fst (fetch_step (source_first_manual [] []) ''dQw4w9WgXcQ'' 0) = Inl NoTranscriptAvailable"
  using get_transcript_no_track
    [of "source_first_manual [] []" "''dQw4w9WgXcQ''"
      "\<lparr>manually_created = [], generated = []\<rparr>" 0]
  by (simp add: source_first_manual_def manual_lookup_ok_def tracks_def)

text \<open>
  Claim C9, as it is stated, at a failure that the source raises inside a tier: the only
  track of the video raises on \<^verbatim>\<open>fetch()\<close>; \<open>get_transcript\<close> raises nothing and returns
  \<^verbatim>\<open>(None, None)\<close>, after one listing request.
\<close>

theorem get_transcript_fetch_failure_not_raised:
  "list_transcripts (source_of [blocked_track] []) ''dQw4w9WgXcQ''
     = Inr \<lparr>manually_created = [blocked_track], generated = []\<rparr>
   \<and> fetch blocked_track = Inl (OtherError ''connection reset'')
   \<and> get_transcript (source_of [blocked_track] []) ''dQw4w9WgXcQ'' 0 = (Inr (None, None), 1)"
  by (simp add: get_transcript_def api_list_def source_of_def select_transcript_def tier1_def
      tier2_def tier3_def fetch_labelled_def find_transcript_def find_generated_transcript_def
      tracks_def blocked_track_def)

text \<open>
  Claim C9, amended. A failure \<open>e\<close> raised by the listing request of the source makes
  \<open>get_transcript\<close> raise exactly one exception, after that one request: its message is
  fixed for transcripts disabled, for no transcript found and for a video that is
  unavailable or private, and is ``Error fetching transcript: '' followed by the cause
  for any other failure. Different failures get different messages.
\<close>

theorem get_transcript_listing_failure:
  assumes "list_transcripts api video_id = Inl e"
  shows "get_transcript api video_id requests =
           (Inl (Exception
              (case e of
                 TranscriptsDisabled \<Rightarrow> ''Transcripts are disabled for this video''
               | NoTranscriptFound \<Rightarrow> ''No transcripts found for this video''
               | VideoUnavailable \<Rightarrow> ''Video is unavailable or private''
               | OtherError cause \<Rightarrow> ''Error fetching transcript: '' @ cause)),
            Suc requests)
         \<and> (\<forall>e'. error_message e' = error_message e \<longrightarrow> e' = e)"
proof
  show "get_transcript api video_id requests =
           (Inl (Exception
              (case e of
                 TranscriptsDisabled \<Rightarrow> ''Transcripts are disabled for this video''
               | NoTranscriptFound \<Rightarrow> ''No transcripts found for this video''
               | VideoUnavailable \<Rightarrow> ''Video is unavailable or private''
               | OtherError cause \<Rightarrow> ''Error fetching transcript: '' @ cause)),
            Suc requests)"
    using assms by (simp add: get_transcript_def api_list_def error_message_def)
  show "\<forall>e'. error_message e' = error_message e \<longrightarrow> e' = e"
    using error_message_inj by blast
qed

theorem get_transcript_listing_failure_witness:
  "list_transcripts (failing_source (OtherError ''timed out'')) ''dQw4w9WgXcQ''
     = Inl (OtherError ''timed out'')
   \<and> get_transcript (failing_source (OtherError ''timed out'')) ''dQw4w9WgXcQ'' 0
     = (Inl (Exception ''Error fetching transcript: timed out''), 1)
   \<and> get_transcript (failing_source TranscriptsDisabled) ''dQw4w9WgXcQ'' 0
     = (Inl (Exception ''Transcripts are disabled for this video''), 1)"
  using get_transcript_listing_failure
    [of "failing_source (OtherError ''timed out'')" "''dQw4w9WgXcQ''"
      "OtherError ''timed out''" 0]
    get_transcript_listing_failure
    [of "failing_source TranscriptsDisabled" "''dQw4w9WgXcQ''" TranscriptsDisabled 0]
  by (simp add: failing_source_def)

section \<open>Properties of the prompt\<close>

lemma summary_types_instructions:
  "summary_type \<in> set summary_types \<Longrightarrow>
     \<exists>task. map_of summary_instructions summary_type = Some task"
  by (auto simp: summary_types_def summary_instructions_def)

lemma embeds_append:
  assumes "embeds ps rest" "s = pre @ p @ rest"
  shows "embeds (p # ps) s"
  using assms by (simp add: embeds_Cons)

text \<open>
  Claim C7. For a summary type of the selector: a transcript text of more than 30000
  characters (35000, say) is cut to its first 30000 characters, this text of exactly
  30000 characters is the one the prompt is rendered with, and the truncation warning is
  displayed; a text of at most 30000 characters is rendered as it is, with no warning.
\<close>

theorem compose_prompt_truncation:
  assumes "map_of summary_instructions summary_type = Some task"
  shows "(length text > 30000 \<longrightarrow>
            compose_prompt summary_type user_query lang text
              = ([TruncationWarning 30000],
                 Inr (render_prompt task user_query lang (take 30000 text)))
            \<and> length (take 30000 text) = 30000)
         \<and> (length text \<le> 30000 \<longrightarrow>
            compose_prompt summary_type user_query lang text
              = ([], Inr (render_prompt task user_query lang text)))"
  using assms by (simp add: compose_prompt_def truncate_text_def MAX_CHARS_def)

theorem compose_prompt_truncation_witness:
  "map_of summary_instructions ''Key Points''
     = Some ''Extract and list the key points and main takeaways in bullet format.''
   \<and> length (replicate 35000 CHR ''a'') > 30000
   \<and> compose_prompt ''Key Points'' [] ''English'' (replicate 35000 CHR ''a'')
       = ([TruncationWarning 30000],
          Inr (render_prompt
            ''Extract and list the key points and main takeaways in bullet format.'' []
            ''English'' (replicate 30000 CHR ''a'')))
   \<and> length ''hello world'' \<le> 30000
   \<and> compose_prompt ''Key Points'' [] ''English'' ''hello world''
       = ([],
          Inr (render_prompt
            ''Extract and list the key points and main takeaways in bullet format.'' []
            ''English'' ''hello world''))"
  using compose_prompt_truncation
    [of "''Key Points''"
      "''Extract and list the key points and main takeaways in bullet format.''"
      "replicate 35000 CHR ''a''" "[]" "''English''"]
    compose_prompt_truncation
    [of "''Key Points''"
      "''Extract and list the key points and main takeaways in bullet format.''"
      "''hello world''" "[]" "''English''"]
  by (simp add: summary_instructions_def)

text \<open>
  Claim C8. For a summary type of the selector, any instructions, language label and
  transcript text, the prompt is: the persona preamble, the task instruction that the
  dictionary has for the summary type, the user's instructions, the language label, the
  transcript text (cut to 30000 characters) and the closing directive, in this order,
  between the fixed captions. The instructions slot holds ``None'' when the user's
  instructions are empty, and is never empty.
\<close>

theorem compose_prompt_contents:
  assumes "summary_type \<in> set summary_types"
  shows "\<exists>task slot.
           map_of summary_instructions summary_type = Some task
         \<and> slot = (if user_query = [] then ''None'' else user_query)
         \<and> slot \<noteq> []
         \<and> snd (compose_prompt summary_type user_query lang text)
             = Inr (''You are an expert video content analyst. \<newline>**Task:** '' @ task
                 @ ''\<newline>**Additional User Instructions:** '' @ slot
                 @ ''\<newline>**Video Transcript (Language: '' @ lang @ ''):**\<newline>''
                 @ take 30000 text
                 @ ''\<newline>Please provide a well-structured response with clear sections and formatting.'')
         \<and> (case snd (compose_prompt summary_type user_query lang text) of
               Inl err \<Rightarrow> False
             | Inr prompt \<Rightarrow>
                 embeds
                  [''You are an expert video content analyst.'', task, slot, lang,
                   take 30000 text,
                   ''Please provide a well-structured response with clear sections and formatting.'']
                  prompt)"
proof -
  from assms obtain task where task: "map_of summary_instructions summary_type = Some task"
    using summary_types_instructions by blast
  define slot where "slot = (if user_query = [] then ''None'' else user_query)"
  have slot_ne: "slot \<noteq> []"
    by (simp add: slot_def)
  define text' where "text' = take 30000 text"
  have tr: "fst (truncate_text text) = text'"
    by (simp add: truncate_text_def MAX_CHARS_def text'_def)
  define directive where
    "directive = ''Please provide a well-structured response with clear sections and formatting.''"
  define prompt where
    "prompt = ''You are an expert video content analyst. \<newline>**Task:** '' @ task
       @ ''\<newline>**Additional User Instructions:** '' @ slot
       @ ''\<newline>**Video Transcript (Language: '' @ lang @ ''):**\<newline>''
       @ text' @ ''\<newline>'' @ directive"
  have eq: "snd (compose_prompt summary_type user_query lang text) = Inr prompt"
    using task tr
    by (cases "truncate_text text")
      (simp add: compose_prompt_def render_prompt_def prompt_def slot_def directive_def)
  have e6: "embeds [directive] (''\<newline>'' @ directive @ [])"
    by (intro embeds_Cons embeds_Nil)
  have e5: "embeds [text', directive]
      (''):**\<newline>'' @ text' @ (''\<newline>'' @ directive @ []))"
    by (intro embeds_Cons e6)
  have e4: "embeds [lang, text', directive]
      (''\<newline>**Video Transcript (Language: '' @ lang
        @ (''):**\<newline>'' @ text' @ (''\<newline>'' @ directive @ [])))"
    by (intro embeds_Cons e5)
  have e3: "embeds [slot, lang, text', directive]
      (''\<newline>**Additional User Instructions:** '' @ slot
        @ (''\<newline>**Video Transcript (Language: '' @ lang
        @ (''):**\<newline>'' @ text' @ (''\<newline>'' @ directive @ []))))"
    by (intro embeds_Cons e4)
  have e2: "embeds [task, slot, lang, text', directive]
      ('' \<newline>**Task:** '' @ task
        @ (''\<newline>**Additional User Instructions:** '' @ slot
        @ (''\<newline>**Video Transcript (Language: '' @ lang
        @ (''):**\<newline>'' @ text' @ (''\<newline>'' @ directive @ [])))))"
    by (intro embeds_Cons e3)
  have e1: "embeds [''You are an expert video content analyst.'', task, slot, lang, text', directive]
      ([] @ ''You are an expert video content analyst.'' @ ('' \<newline>**Task:** '' @ task
        @ (''\<newline>**Additional User Instructions:** '' @ slot
        @ (''\<newline>**Video Transcript (Language: '' @ lang
        @ (''):**\<newline>'' @ text' @ (''\<newline>'' @ directive @ []))))))"
    by (intro embeds_Cons e2)
  have emb: "embeds [''You are an expert video content analyst.'', task, slot, lang, text', directive]
      prompt"
    using e1 by (simp add: prompt_def)
  show ?thesis
    using task slot_ne eq emb
    by (auto simp: prompt_def slot_def text'_def directive_def)
qed

theorem compose_prompt_contents_witness:
  "map_of summary_instructions ''Quick Overview''
     = Some ''Provide a brief, concise overview in 3-4 sentences.''
   \<and> snd (compose_prompt ''Quick Overview'' [] ''English'' ''hello world'')
     = Inr ''You are an expert video content analyst. \<newline>**Task:** Provide a brief, concise overview in 3-4 sentences.\<newline>**Additional User Instructions:** None\<newline>**Video Transcript (Language: English):**\<newline>hello world\<newline>Please provide a well-structured response with clear sections and formatting.''
   \<and> embeds
        [''You are an expert video content analyst.'',
         ''Provide a brief, concise overview in 3-4 sentences.'', ''None'', ''English'',
         ''hello world'',
         ''Please provide a well-structured response with clear sections and formatting.'']
        ''You are an expert video content analyst. \<newline>**Task:** Provide a brief, concise overview in 3-4 sentences.\<newline>**Additional User Instructions:** None\<newline>**Video Transcript (Language: English):**\<newline>hello world\<newline>Please provide a well-structured response with clear sections and formatting.''"
proof -
  have mem: "''Quick Overview'' \<in> set summary_types"
    by (simp add: summary_types_def)
  have key: "map_of summary_instructions ''Quick Overview''
      = Some ''Provide a brief, concise overview in 3-4 sentences.''"
    by (simp add: summary_instructions_def)
  have short: "take 30000 ''hello world'' = ''hello world''"
    by simp
  from compose_prompt_contents [OF mem, of "[]" "''English''" "''hello world''"]
  obtain task slot where
    task: "map_of summary_instructions ''Quick Overview'' = Some task"
    and slot: "slot = ''None''"
    and eq: "snd (compose_prompt ''Quick Overview'' [] ''English'' ''hello world'')
      = Inr (''You are an expert video content analyst. \<newline>**Task:** '' @ task
          @ ''\<newline>**Additional User Instructions:** '' @ slot
          @ ''\<newline>**Video Transcript (Language: '' @ ''English'' @ ''):**\<newline>''
          @ take 30000 ''hello world''
          @ ''\<newline>Please provide a well-structured response with clear sections and formatting.'')"
    and emb: "case snd (compose_prompt ''Quick Overview'' [] ''English'' ''hello world'') of
        Inl err \<Rightarrow> False
      | Inr prompt \<Rightarrow>
          embeds
           [''You are an expert video content analyst.'', task, slot, ''English'',
            take 30000 ''hello world'',
            ''Please provide a well-structured response with clear sections and formatting.'']
           prompt"
    by auto
  from task key have t: "task = ''Provide a brief, concise overview in 3-4 sentences.''"
    by simp
  from emb show ?thesis
    unfolding eq unfolding t slot short using key by simp
qed

end
